theory Spec2Isabelle
  imports Complex_Main
begin

section \<open>Data model\<close>

text \<open>
  The two modules \<^verbatim>\<open>qutip/superop_reps.py\<close> and \<^verbatim>\<open>qutip/tensor.py\<close> work on
  \<^verbatim>\<open>Qobj\<close> values. A Python exception is a value of \<open>error\<close>; a function that may
  raise returns \<open>error + 'r\<close> with \<open>Inl\<close> for the exception. The constructors are the
  Python exception classes the two modules can raise, each with its message.
\<close>

datatype error =
    TypeError string
  | IndexError string
  | ValueError string
  | AttributeError string

text \<open>
  \<^verbatim>\<open>Qobj.dims\<close> is a list of two lists; an entry is an integer for an object on a Hilbert
  space and a list again for an object on a Liouville space.
\<close>

datatype dim = Dim int | Sub "dim list"

type_synonym dims = "dim list \<times> dim list"

text \<open>
  The attributes of a \<^verbatim>\<open>Qobj\<close> that the two modules read or write. \<open>data\<close> is the matrix
  as a list of rows (what \<^verbatim>\<open>data.toarray()\<close> gives), over any entry type. \<open>type\<close> and
  \<open>superrep\<close> are Python strings, \<open>superrep\<close> possibly \<^verbatim>\<open>None\<close>. \<open>isherm\<close> is the
  Python value that reading \<^verbatim>\<open>q.isherm\<close> yields (\<^verbatim>\<open>True\<close>, \<^verbatim>\<open>False\<close> or
  \<^verbatim>\<open>None\<close> for unknown); on an object that \<open>tensor\<close> builds it is the value left in
  \<^verbatim>\<open>_isherm\<close>.
\<close>

record 'a qobj =
  data :: "'a list list"
  dims :: dims
  type :: string
  superrep :: "string option"
  isherm :: "bool option"

text \<open>
  What the two modules import from the rest of the library and from numpy/scipy, and do
  not define themselves, is a parameter of the model: the kind that the \<^verbatim>\<open>Qobj\<close>
  constructor derives from \<^verbatim>\<open>dims\<close>, the adjoint, the product of two objects,
  \<^verbatim>\<open>spre\<close>, \<^verbatim>\<open>spost\<close>, the Kraus operators that \<^verbatim>\<open>scipy.linalg.eig\<close>, \<^verbatim>\<open>sqrt\<close> and
  \<^verbatim>\<open>vec2mat\<close> yield for a Choi matrix, \<^verbatim>\<open>reshuffle\<close>, \<^verbatim>\<open>operator_to_vector\<close>,
  \<^verbatim>\<open>ket2dm\<close>, and the setting \<^verbatim>\<open>qutip.settings.auto_tidyup\<close> with \<^verbatim>\<open>Qobj.tidyup\<close>.
  They are taken as total functions.
\<close>

record 'a ext =
  classify :: "dims \<Rightarrow> string"
  dag :: "'a qobj \<Rightarrow> 'a qobj"
  mul :: "'a qobj \<Rightarrow> 'a qobj \<Rightarrow> 'a qobj"
  spre :: "'a qobj \<Rightarrow> 'a qobj"
  spost :: "'a qobj \<Rightarrow> 'a qobj"
  eig_kraus :: "'a qobj \<Rightarrow> 'a qobj list"
  reshuffle :: "'a qobj \<Rightarrow> 'a qobj"
  operator_to_vector :: "'a qobj \<Rightarrow> 'a qobj"
  ket2dm :: "'a qobj \<Rightarrow> 'a qobj"
  auto_tidyup :: bool
  tidyup :: "'a qobj \<Rightarrow> 'a qobj"

definition Qobj :: "'a ext \<Rightarrow> dims \<Rightarrow> 'a list list \<Rightarrow> 'a qobj" where
  \<comment> \<open>Modelled from the spec: the construction of a QuantumObject from a dims specification
      and a matrix (class \<^verbatim>\<open>Qobj\<close> of \<^verbatim>\<open>qutip/qobj.py\<close>): data and dims as given, the kind
      derived from dims, no representation tag, hermiticity unknown.\<close>
  "Qobj X ds inpt =
     \<lparr>data = inpt, dims = ds, type = classify X ds, superrep = None, isherm = None\<rparr>"

text \<open>
  Modelled from the spec: the properties \<^verbatim>\<open>issuper\<close>, \<^verbatim>\<open>isoper\<close>, \<^verbatim>\<open>isket\<close>, \<^verbatim>\<open>isbra\<close>,
  \<^verbatim>\<open>isoperket\<close> and \<^verbatim>\<open>isoperbra\<close> of class \<^verbatim>\<open>Qobj\<close> (\<^verbatim>\<open>qutip/qobj.py\<close>), each the
  test of the kind against one of its six values.
\<close>

definition issuper :: "'a qobj \<Rightarrow> bool" where
  "issuper q = (type q = ''super'')"

definition isoper :: "'a qobj \<Rightarrow> bool" where
  "isoper q = (type q = ''oper'')"

definition isket :: "'a qobj \<Rightarrow> bool" where
  "isket q = (type q = ''ket'')"

definition isbra :: "'a qobj \<Rightarrow> bool" where
  "isbra q = (type q = ''bra'')"

definition isoperket :: "'a qobj \<Rightarrow> bool" where
  "isoperket q = (type q = ''operator-ket'')"

definition isoperbra :: "'a qobj \<Rightarrow> bool" where
  "isoperbra q = (type q = ''operator-bra'')"

section \<open>superop\_reps: the reshape between Super and Choi form\<close>

text \<open>
  numpy arrays are row-major. \<open>ravel\<close> is the flat buffer of a matrix, \<open>reshape2\<close> cuts a
  flat buffer into \<open>r\<close> rows of \<open>c\<close> entries, \<open>unravel4\<close> and \<open>ravel4\<close> convert between a
  flat index and the four indices of an array of shape \<open>(d, d, d, d)\<close>.
\<close>

definition ravel :: "'a list list \<Rightarrow> 'a list" where
  "ravel m = concat m"

definition shape :: "'a list list \<Rightarrow> nat \<times> nat" where
  "shape m = (length m, case m of [] \<Rightarrow> 0 | row # _ \<Rightarrow> length row)"

definition reshape2 :: "nat \<times> nat \<Rightarrow> 'a list \<Rightarrow> 'a list list" where
  "reshape2 rc xs = map (\<lambda>i. take (snd rc) (drop (i * snd rc) xs)) [0..<fst rc]"

definition unravel4 :: "nat \<Rightarrow> nat \<Rightarrow> nat \<times> nat \<times> nat \<times> nat" where
  "unravel4 d k = (k div (d * d * d), (k div (d * d)) mod d, (k div d) mod d, k mod d)"

definition ravel4 :: "nat \<Rightarrow> nat \<times> nat \<times> nat \<times> nat \<Rightarrow> nat" where
  "ravel4 d ix = (case ix of (a, b, c, e) \<Rightarrow> ((a * d + b) * d + c) * d + e)"

text \<open>
  \<^verbatim>\<open>a.transpose(3, 1, 2, 0)\<close> on an array of shape \<open>(d, d, d, d)\<close>: the entry of the result
  at \<open>(i0, i1, i2, i3)\<close> is the entry of \<open>a\<close> at \<open>(i3, i1, i2, i0)\<close>.
\<close>

definition transpose_index :: "nat \<Rightarrow> nat \<Rightarrow> nat" where
  "transpose_index d k =
     (case unravel4 d k of (i0, i1, i2, i3) \<Rightarrow> ravel4 d (i3, i1, i2, i0))"

definition transpose_3120 :: "nat \<Rightarrow> 'a list \<Rightarrow> 'a list" where
  "transpose_3120 d xs = map (\<lambda>k. xs ! transpose_index d k) [0..<d * d * d * d]"

text \<open>
  \<^verbatim>\<open>sqrt(data.shape[0])\<close> is a float that numpy takes as a dimension by truncating it:
  the largest \<open>k\<close> with \<open>k * k \<le> n\<close>.
\<close>

fun isqrt_from :: "nat \<Rightarrow> nat \<Rightarrow> nat" where
  "isqrt_from 0 n = 0"
| "isqrt_from (Suc k) n = (if Suc k * Suc k \<le> n then Suc k else isqrt_from k n)"

definition isqrt :: "nat \<Rightarrow> nat" where
  "isqrt n = isqrt_from n n"

text \<open>
  \<^verbatim>\<open>_super_tofrom_choi\<close>. \<^verbatim>\<open>reshape([sqrt_shape] * 4)\<close> raises \<^verbatim>\<open>ValueError\<close> unless the
  array has \<open>sqrt_shape ^ 4\<close> entries.
\<close>

definition super_tofrom_choi :: "'a ext \<Rightarrow> 'a qobj \<Rightarrow> error + 'a qobj" where
  "super_tofrom_choi X q_oper =
     (let data' = data q_oper;
          sqrt_shape = isqrt (fst (shape data'))
      in if length (ravel data') \<noteq> sqrt_shape * sqrt_shape * sqrt_shape * sqrt_shape
         then Inl (ValueError ''total size of new array must be unchanged'')
         else Inr (Qobj X (dims q_oper)
                (reshape2 (shape data') (transpose_3120 sqrt_shape (ravel data')))))"

definition dep_super :: "real ext \<Rightarrow> real \<Rightarrow> real qobj" where
  "dep_super X pe =
     Qobj X ([Dim 2, Dim 2], [Dim 2, Dim 2])
       [[1 - pe / 2, 0, 0, pe / 2],
        [0, 1 - pe, 0, 0],
        [0, 0, 1 - pe, 0],
        [pe / 2, 0, 0, 1 - pe / 2]]"

definition dep_choi :: "real ext \<Rightarrow> real \<Rightarrow> real qobj" where
  "dep_choi X pe =
     Qobj X ([Dim 2, Dim 2], [Dim 2, Dim 2])
       [[1 - pe / 2, 0, 0, 1 - pe],
        [0, pe / 2, 0, 0],
        [0, 0, pe / 2, 0],
        [1 - pe, 0, 0, 1 - pe / 2]]"

text \<open>
  \<^verbatim>\<open>super_to_choi\<close> and \<^verbatim>\<open>choi_to_super\<close> set the tag on the object that
  \<^verbatim>\<open>_super_tofrom_choi\<close> built; \<^verbatim>\<open>choi_to_super\<close> calls \<^verbatim>\<open>super_to_choi\<close> and
  overwrites the tag.
\<close>

definition super_to_choi :: "'a ext \<Rightarrow> 'a qobj \<Rightarrow> error + 'a qobj" where
  "super_to_choi X q_oper =
     (case super_tofrom_choi X q_oper of
        Inl e \<Rightarrow> Inl e
      | Inr q \<Rightarrow> Inr (q\<lparr>superrep := Some ''choi''\<rparr>))"

definition choi_to_super :: "'a ext \<Rightarrow> 'a qobj \<Rightarrow> error + 'a qobj" where
  "choi_to_super X q_oper =
     (case super_to_choi X q_oper of
        Inl e \<Rightarrow> Inl e
      | Inr q \<Rightarrow> Inr (q\<lparr>superrep := Some ''super''\<rparr>))"

definition choi_to_kraus :: "'a ext \<Rightarrow> 'a qobj \<Rightarrow> 'a qobj list" where
  \<comment> \<open>The eigendecomposition is floating-point work of scipy: the list it leads to is the
      parameter \<open>eig_kraus\<close>.\<close>
  "choi_to_kraus X q_oper = eig_kraus X q_oper"

section \<open>superop\_reps: the dispatch functions\<close>

definition py_str :: "string option \<Rightarrow> string" where
  \<comment> \<open>\<^verbatim>\<open>str\<close> of an attribute that holds a string or \<^verbatim>\<open>None\<close>.\<close>
  "py_str v = (case v of None \<Rightarrow> ''None'' | Some s \<Rightarrow> s)"

text \<open>
  \<^verbatim>\<open>to_choi\<close>. The message of the last branch is built by
  \<^verbatim>\<open>"... superrep = {0.choi} ...".format(q_oper)\<close>; a \<^verbatim>\<open>Qobj\<close> has no attribute \<^verbatim>\<open>choi\<close>,
  so \<^verbatim>\<open>format\<close> raises \<^verbatim>\<open>AttributeError\<close> before any \<^verbatim>\<open>TypeError\<close> is built.
\<close>

definition to_choi :: "'a ext \<Rightarrow> 'a qobj \<Rightarrow> error + 'a qobj" where
  "to_choi X q_oper =
     (if type q_oper = ''super'' then
        (if superrep q_oper = Some ''choi'' then Inr q_oper
         else if superrep q_oper = Some ''super'' then super_to_choi X q_oper
         else Inl (TypeError (py_str (superrep q_oper))))
      else if type q_oper = ''oper'' then
        super_to_choi X (mul X (spre X q_oper) (spost X (dag X q_oper)))
      else Inl (AttributeError ''Qobj object has no attribute choi''))"

text \<open>
  \<^verbatim>\<open>to_super\<close> and \<^verbatim>\<open>to_kraus\<close>. Their inner \<^verbatim>\<open>if\<close>/\<^verbatim>\<open>elif\<close> on \<^verbatim>\<open>superrep\<close> has no
  \<^verbatim>\<open>else\<close>: for any other tag the function reaches its end and returns \<^verbatim>\<open>None\<close>, which
  is \<open>Inr None\<close> here.
\<close>

definition to_super :: "'a ext \<Rightarrow> 'a qobj \<Rightarrow> error + 'a qobj option" where
  "to_super X q_oper =
     (if type q_oper = ''super'' then
        (if superrep q_oper = Some ''super'' then Inr (Some q_oper)
         else if superrep q_oper = Some ''choi'' then
           (case choi_to_super X q_oper of Inl e \<Rightarrow> Inl e | Inr q \<Rightarrow> Inr (Some q))
         else Inr None)
      else if type q_oper = ''oper'' then
        Inr (Some (mul X (spre X q_oper) (spost X (dag X q_oper))))
      else Inl (TypeError (''Conversion of Qobj with type = '' @ type q_oper
              @ '' and superrep = '' @ py_str (superrep q_oper)
              @ '' to supermatrix not supported.'')))"

function to_kraus :: "'a ext \<Rightarrow> 'a qobj \<Rightarrow> error + 'a qobj list option" where
  "to_kraus X q_oper =
     (if type q_oper = ''super'' then
        (if superrep q_oper = Some ''super'' then
           (case to_choi X q_oper of Inl e \<Rightarrow> Inl e | Inr c \<Rightarrow> to_kraus X c)
         else if superrep q_oper = Some ''choi'' then Inr (Some (choi_to_kraus X q_oper))
         else Inr None)
      else if type q_oper = ''oper'' then Inr (Some [q_oper])
      else Inl (TypeError (''Conversion of Qobj with type = '' @ type q_oper
              @ '' and superrep = '' @ py_str (superrep q_oper)
              @ '' to Kraus decomposition not supported.'')))"
  by pat_completeness auto
termination
proof (relation "measure (\<lambda>(X, q). if superrep q = Some ''super'' then 1 else 0)")
  show "wf (measure (\<lambda>(X :: 'a ext, q :: 'a qobj). if superrep q = Some ''super'' then 1 else 0))"
    by simp
next
  fix X :: "'a ext" and q_oper c :: "'a qobj"
  assume "type q_oper = ''super''" "superrep q_oper = Some ''super''"
    "to_choi X q_oper = Inr c"
  then have "superrep c = Some ''choi''"
    by (auto simp: to_choi_def super_to_choi_def split: sum.splits)
  then show "((X, c), (X, q_oper))
      \<in> measure (\<lambda>(X, q). if superrep q = Some ''super'' then 1 else 0)"
    using \<open>superrep q_oper = Some ''super''\<close> by simp
qed

text \<open>
  Applying a dispatch function to the value another call returned. Where that value is
  \<^verbatim>\<open>None\<close>, reading its \<^verbatim>\<open>type\<close> raises \<^verbatim>\<open>AttributeError\<close>.
\<close>

definition bind_err :: "error + 'b \<Rightarrow> ('b \<Rightarrow> error + 'c) \<Rightarrow> error + 'c" where
  "bind_err r f = (case r of Inl e \<Rightarrow> Inl e | Inr v \<Rightarrow> f v)"

definition on_value :: "('a qobj \<Rightarrow> error + 'c) \<Rightarrow> 'a qobj option \<Rightarrow> error + 'c" where
  "on_value f v =
     (case v of
        None \<Rightarrow> Inl (AttributeError ''NoneType object has no attribute type'')
      | Some q \<Rightarrow> f q)"

section \<open>tensor\<close>

text \<open>
  An argument of the variadic functions is any Python value: a \<^verbatim>\<open>Qobj\<close>, a list of
  values, or something else, of which \<^verbatim>\<open>None\<close> is the one that occurs (it is what
  \<^verbatim>\<open>to_super\<close> can return). An array of objects, which \<^verbatim>\<open>tensor\<close> accepts like a list,
  is not modelled apart.
\<close>

datatype 'a pyval = PQobj "'a qobj" | PList "'a pyval list" | PNone

fun is_Qobj :: "'a pyval \<Rightarrow> bool" where
  "is_Qobj (PQobj q) = True"
| "is_Qobj v = False"

text \<open>The \<^verbatim>\<open>Qobj\<close>s among a list of values, in order: all of it once \<open>is_Qobj\<close> held.\<close>

fun qobjs :: "'a pyval list \<Rightarrow> 'a qobj list" where
  "qobjs [] = []"
| "qobjs (PQobj q # vs) = q # qobjs vs"
| "qobjs (v # vs) = qobjs vs"

text \<open>
  \<^verbatim>\<open>scipy.sparse.kron\<close>: the row of the product for row \<open>ra\<close> of \<open>A\<close> and row \<open>rb\<close> of
  \<open>B\<close> holds every \<open>a * b\<close>, \<open>a\<close> running slowest.
\<close>

definition kron :: "'a::times list list \<Rightarrow> 'a list list \<Rightarrow> 'a list list" where
  "kron A B =
     concat (map (\<lambda>ra. map (\<lambda>rb. concat (map (\<lambda>a. map (\<lambda>b. a * b) rb) ra)) B) A)"

text \<open>Python's \<^verbatim>\<open>x and y\<close> and truth value on \<^verbatim>\<open>True\<close>, \<^verbatim>\<open>False\<close> and \<^verbatim>\<open>None\<close>.\<close>

definition truthy :: "bool option \<Rightarrow> bool" where
  "truthy v = (v = Some True)"

definition py_and :: "bool option \<Rightarrow> bool option \<Rightarrow> bool option" where
  "py_and x y = (if truthy x then y else x)"

text \<open>
  The body of the loop \<^verbatim>\<open>for n, q in enumerate(qlist)\<close>. \<^verbatim>\<open>out.type\<close> is never assigned:
  it is the kind that \<^verbatim>\<open>Qobj\<close> derives from the dims of the moment.
\<close>

definition tensor_step :: "'a::times ext \<Rightarrow> 'a qobj \<Rightarrow> nat \<times> 'a qobj \<Rightarrow> 'a qobj" where
  "tensor_step X out nq =
     (case nq of (n, q) \<Rightarrow>
        let ds = (if n = 0 then dims q
                  else (fst (dims out) @ fst (dims q), snd (dims out) @ snd (dims q)));
            out1 = out\<lparr>data := (if n = 0 then data q else kron (data out) (data q)),
                        dims := ds, type := classify X ds\<rparr>
        in out1\<lparr>isherm := py_and (isherm out1) (isherm q)\<rparr>)"

definition tidy_result :: "'a ext \<Rightarrow> 'a qobj \<Rightarrow> 'a qobj" where
  \<comment> \<open>\<^verbatim>\<open>out.tidyup() if qutip.settings.auto_tidyup else out\<close>\<close>
  "tidy_result X out = (if auto_tidyup X then tidyup X out else out)"

text \<open>
  \<^verbatim>\<open>tensor\<close> from the check that every element of \<^verbatim>\<open>qlist\<close> is a \<^verbatim>\<open>Qobj\<close> on.
  \<^verbatim>\<open>Qobj()\<close> is the constructor without arguments; its data and dims are overwritten in
  the first round of the loop, before anything reads them. \<^verbatim>\<open>qlist[0]\<close> raises
  \<^verbatim>\<open>IndexError\<close> on an empty list.
\<close>

definition tensor_qlist :: "'a::times ext \<Rightarrow> 'a pyval list \<Rightarrow> error + 'a qobj" where
  "tensor_qlist X qlist =
     (if \<not> list_all is_Qobj qlist
      then Inl (TypeError ''One of inputs is not a quantum object'')
      else
        (case qobjs qlist of
           [] \<Rightarrow> Inl (IndexError ''list index out of range'')
         | q0 # _ \<Rightarrow>
             let qs = qobjs qlist;
                 out = Qobj X ([], []) [];
                 out = (if issuper q0 then out\<lparr>superrep := superrep q0\<rparr> else out)
             in if issuper q0 \<and> \<not> list_all (\<lambda>q. superrep q = superrep out) qs
                then Inl (TypeError (''In tensor products of superroperators, all must''
                        @ ''have the same representation''))
                else
                  let out = out\<lparr>isherm := Some True\<rparr>;
                      out = foldl (tensor_step X) out (enumerate 0 qs);
                      out = (if \<not> truthy (isherm out) then out\<lparr>isherm := None\<rparr> else out)
                  in Inr (tidy_result X out)))"

definition tensor :: "'a::times ext \<Rightarrow> 'a pyval list \<Rightarrow> error + 'a qobj" where
  "tensor X args =
     (if args = [] then Inl (TypeError ''Requires at least one input argument'')
      else
        (case args of
           [PList qlist] \<Rightarrow> tensor_qlist X qlist
         | [PQobj q] \<Rightarrow> Inr q
         | _ \<Rightarrow> tensor_qlist X args))"

section \<open>super\_tensor and composite\<close>

text \<open>
  \<^verbatim>\<open>all(arg.attr for arg in args)\<close>: the attribute is read argument by argument until one
  is false; reading it from a value that is no \<^verbatim>\<open>Qobj\<close> raises \<^verbatim>\<open>AttributeError\<close>.
\<close>

fun attr_all :: "('a qobj \<Rightarrow> bool) \<Rightarrow> 'a pyval list \<Rightarrow> error + bool" where
  "attr_all p [] = Inr True"
| "attr_all p (PQobj q # vs) = (if p q then attr_all p vs else Inr False)"
| "attr_all p (v # vs) = Inl (AttributeError ''object has no such attribute'')"

text \<open>
  \<^verbatim>\<open>super_tensor\<close>. \<^verbatim>\<open>args[0]\<close> is read first, whatever \<^verbatim>\<open>args\<close> is. The branch for
  operator-bras calls \<^verbatim>\<open>super_tensor\<close> again on the adjoints; nothing in the module bounds
  that recursion, so the function is partial and \<open>None\<close> stands for a call that does not
  return.
\<close>

definition shuffle_tensor_unshuffle ::
  "'a::times ext \<Rightarrow> 'a pyval list \<Rightarrow> error + 'a qobj" where
  \<comment> \<open>reshuffle every operand, tensor the list, reshuffle the product\<close>
  "shuffle_tensor_unshuffle X args =
     (case tensor X [PList (map (\<lambda>q. PQobj (reshuffle X q)) (qobjs args))] of
        Inl e \<Rightarrow> Inl e
      | Inr shuffled_tensor \<Rightarrow> Inr (reshuffle X shuffled_tensor))"

partial_function (option) super_tensor ::
  "'a::times ext \<Rightarrow> 'a pyval list \<Rightarrow> (error + 'a qobj) option" where
  "super_tensor X args0 =
     (case args0 of
        [] \<Rightarrow> Some (Inl (IndexError ''tuple index out of range''))
      | a0 # _ \<Rightarrow>
          let args = (case a0 of PList l \<Rightarrow> l | _ \<Rightarrow> args0) in
          (case attr_all issuper args of
             Inl e \<Rightarrow> Some (Inl e)
           | Inr all_super \<Rightarrow>
               if all_super then
                 (case attr_all (\<lambda>q. superrep q = Some ''super'') args of
                    Inl e \<Rightarrow> Some (Inl e)
                  | Inr all_rep \<Rightarrow>
                      if \<not> all_rep then
                        Some (Inl (TypeError
                          (''super_tensor on type=super is only implemented for ''
                           @ ''superrep=super.'')))
                      else
                        (case shuffle_tensor_unshuffle X args of
                           Inl e \<Rightarrow> Some (Inl e)
                         | Inr out \<Rightarrow>
                            (case qobjs args of
                               [] \<Rightarrow> Some (Inl (IndexError ''list index out of range''))
                             | q0 # _ \<Rightarrow>
                                 Some (Inr (out\<lparr>superrep := superrep q0\<rparr>)))))
               else
                 (case attr_all isoperket args of
                    Inl e \<Rightarrow> Some (Inl e)
                  | Inr all_operket \<Rightarrow>
                      if all_operket then Some (shuffle_tensor_unshuffle X args)
                      else
                        (case attr_all isoperbra args of
                           Inl e \<Rightarrow> Some (Inl e)
                         | Inr all_operbra \<Rightarrow>
                             if all_operbra then
                               Option.bind
                                 (super_tensor X
                                    (map (\<lambda>q. PQobj (dag X q)) (qobjs args)))
                                 (\<lambda>r. Some (case r of
                                              Inl e \<Rightarrow> Inl e
                                            | Inr q \<Rightarrow> Inr (dag X q)))
                             else
                               Some (Inl (TypeError
                                 (''All arguments must be the same type, ''
                                  @ ''either super, operator-ket or operator-bra.'')))))))"

definition isoperlike :: "'a qobj \<Rightarrow> bool" where
  "isoperlike q = (isoper q \<or> issuper q)"

definition isketlike :: "'a qobj \<Rightarrow> bool" where
  "isketlike q = (isket q \<or> isoperket q)"

definition isbralike :: "'a qobj \<Rightarrow> bool" where
  "isbralike q = (isbra q \<or> isoperbra q)"

text \<open>
  \<^verbatim>\<open>map(qutip.superop_reps.to_super, args)\<close>, unpacked into the call: the results in
  order, or the first exception.
\<close>

fun map_to_super :: "'a ext \<Rightarrow> 'a qobj list \<Rightarrow> error + 'a pyval list" where
  "map_to_super X [] = Inr []"
| "map_to_super X (q # qs) =
     (case to_super X q of
        Inl e \<Rightarrow> Inl e
      | Inr v \<Rightarrow>
         (case map_to_super X qs of
            Inl e \<Rightarrow> Inl e
          | Inr vs \<Rightarrow> Inr ((case v of None \<Rightarrow> PNone | Some s \<Rightarrow> PQobj s) # vs)))"

fun join_comma :: "string list \<Rightarrow> string" where
  "join_comma [] = []"
| "join_comma [s] = s"
| "join_comma (s # t # ss) = s @ '', '' @ join_comma (t # ss)"

text \<open>
  \<^verbatim>\<open>composite\<close>. The bra-like branch calls \<^verbatim>\<open>composite\<close> again on the adjoints, so the
  function is partial like \<^verbatim>\<open>super_tensor\<close>.
\<close>

partial_function (option) composite ::
  "'a::times ext \<Rightarrow> 'a pyval list \<Rightarrow> (error + 'a qobj) option" where
  "composite X args =
     (if \<not> list_all is_Qobj args then Some (Inl (TypeError ''All arguments must be Qobjs.''))
      else
        let qs = qobjs args in
        if list_all isoperlike qs then
          (if list_ex issuper qs then
             (case map_to_super X qs of
                Inl e \<Rightarrow> Some (Inl e)
              | Inr vs \<Rightarrow> super_tensor X vs)
           else Some (tensor X args))
        else if list_all isketlike qs then
          (if list_ex isoperket qs then
             super_tensor X
               (map (\<lambda>q. PQobj (if isoperket q then q
                                 else operator_to_vector X (ket2dm X q))) qs)
           else Some (tensor X args))
        else if list_all isbralike qs then
          Option.bind (composite X (map (\<lambda>q. PQobj (dag X q)) qs))
            (\<lambda>r. Some (case r of Inl e \<Rightarrow> Inl e | Inr q \<Rightarrow> Inr (dag X q)))
        else Some (Inl (TypeError
               (''Unsupported Qobj types ['' @ join_comma (map type qs) @ ''].''))))"

section \<open>An instance of the external functions, and example objects\<close>

text \<open>
  To run the model on concrete inputs the external functions need an instance. This one is
  over real matrices: the kind is read off the nesting of dims, the adjoint is the
  transpose, \<open>spre0 A\<close> is \<open>I \<otimes> A\<close> and \<open>spost0 A\<close> is \<open>A\<^sup>T \<otimes> I\<close> (column stacking), the
  tidy-up pass zeroes entries below \<open>10\<^sup>-\<^sup>1\<^sup>2\<close>. The fields \<open>reshuffle\<close> and \<open>eig_kraus\<close>
  hold placeholders: the examples below depend on kinds, tags, dims and flags only, never
  on the matrix that \<^verbatim>\<open>reshuffle\<close> or the eigendecomposition would give.
\<close>

fun is_sub :: "dim \<Rightarrow> bool" where
  "is_sub (Sub ds) = True"
| "is_sub (Dim n) = False"

definition classify0 :: "dims \<Rightarrow> string" where
  "classify0 ds =
     (let l = fst ds; r = snd ds; ones = list_all (\<lambda>d. d = Dim 1)
      in if list_ex is_sub l \<and> list_ex is_sub r then ''super''
         else if list_ex is_sub l then ''operator-ket''
         else if list_ex is_sub r then ''operator-bra''
         else if ones r \<and> \<not> ones l then ''ket''
         else if ones l \<and> \<not> ones r then ''bra''
         else ''oper'')"

definition matmul :: "real list list \<Rightarrow> real list list \<Rightarrow> real list list" where
  "matmul A B = map (\<lambda>r. map (\<lambda>c. sum_list (map2 (*) r c)) (transpose B)) A"

definition identity :: "nat \<Rightarrow> real list list" where
  "identity n = map (\<lambda>i. map (\<lambda>j. if i = j then 1 else 0) [0..<n]) [0..<n]"

definition dag0 :: "real qobj \<Rightarrow> real qobj" where
  "dag0 q = q\<lparr>data := transpose (data q), dims := (snd (dims q), fst (dims q)),
              type := classify0 (snd (dims q), fst (dims q))\<rparr>"

definition mul0 :: "real qobj \<Rightarrow> real qobj \<Rightarrow> real qobj" where
  "mul0 a b = a\<lparr>data := matmul (data a) (data b), dims := (fst (dims a), snd (dims b)),
                type := classify0 (fst (dims a), snd (dims b)), isherm := None\<rparr>"

definition super_dims :: "dims \<Rightarrow> dims" where
  "super_dims ds = ([Sub (fst ds), Sub (snd ds)], [Sub (fst ds), Sub (snd ds)])"

definition spre0 :: "real qobj \<Rightarrow> real qobj" where
  "spre0 q = \<lparr>data = kron (identity (length (data q))) (data q),
              dims = super_dims (dims q), type = ''super'',
              superrep = Some ''super'', isherm = None\<rparr>"

definition spost0 :: "real qobj \<Rightarrow> real qobj" where
  "spost0 q = \<lparr>data = kron (transpose (data q)) (identity (length (data q))),
               dims = super_dims (dims q), type = ''super'',
               superrep = Some ''super'', isherm = None\<rparr>"

definition operator_to_vector0 :: "real qobj \<Rightarrow> real qobj" where
  "operator_to_vector0 q =
     \<lparr>data = map (\<lambda>x. [x]) (concat (transpose (data q))),
      dims = ([Sub (fst (dims q)), Sub (snd (dims q))], [Dim 1]),
      type = ''operator-ket'', superrep = None, isherm = None\<rparr>"

definition ket2dm0 :: "real qobj \<Rightarrow> real qobj" where
  "ket2dm0 q = \<lparr>data = matmul (data q) (transpose (data q)),
                dims = (fst (dims q), fst (dims q)), type = ''oper'',
                superrep = None, isherm = Some True\<rparr>"

definition tidyup0 :: "real qobj \<Rightarrow> real qobj" where
  "tidyup0 q = q\<lparr>data := map (map (\<lambda>x. if \<bar>x\<bar> < 1 / 10 ^ 12 then 0 else x)) (data q)\<rparr>"

definition ext0 :: "real ext" where
  "ext0 = \<lparr>classify = classify0, dag = dag0, mul = mul0, spre = spre0, spost = spost0,
           eig_kraus = (\<lambda>q. []), reshuffle = (\<lambda>q. q),
           operator_to_vector = operator_to_vector0, ket2dm = ket2dm0,
           auto_tidyup = False, tidyup = tidyup0\<rparr>"

definition ext1 :: "real ext" where
  \<comment> \<open>the same with the tidy-up pass switched on\<close>
  "ext1 = ext0\<lparr>auto_tidyup := True\<rparr>"

definition oper2 :: "real qobj" where
  \<comment> \<open>\<^verbatim>\<open>sigmax()\<close>\<close>
  "oper2 = \<lparr>data = [[0, 1], [1, 0]], dims = ([Dim 2], [Dim 2]), type = ''oper'',
            superrep = None, isherm = Some True\<rparr>"

definition oper3 :: "real qobj" where
  \<comment> \<open>a lowering operator on three levels; not Hermitian\<close>
  "oper3 = \<lparr>data = [[0, 1, 0], [0, 0, 2], [0, 0, 0]], dims = ([Dim 3], [Dim 3]),
            type = ''oper'', superrep = None, isherm = Some False\<rparr>"

definition chan_super :: "real qobj" where
  \<comment> \<open>the depolarizing matrices at \<open>pe = 1/2\<close>, as super-operators on one qubit\<close>
  "chan_super = \<lparr>data = [[3/4, 0, 0, 1/4], [0, 1/2, 0, 0], [0, 0, 1/2, 0], [1/4, 0, 0, 3/4]],
                 dims = ([Sub [Dim 2], Sub [Dim 2]], [Sub [Dim 2], Sub [Dim 2]]),
                 type = ''super'', superrep = Some ''super'', isherm = Some True\<rparr>"

definition chan_choi :: "real qobj" where
  "chan_choi = \<lparr>data = [[3/4, 0, 0, 1/2], [0, 1/4, 0, 0], [0, 0, 1/4, 0], [1/2, 0, 0, 3/4]],
                dims = ([Sub [Dim 2], Sub [Dim 2]], [Sub [Dim 2], Sub [Dim 2]]),
                type = ''super'', superrep = Some ''choi'', isherm = Some True\<rparr>"

definition chan_chi :: "real qobj" where
  \<comment> \<open>a super-operator whose tag is neither \<^verbatim>\<open>'super'\<close> nor \<^verbatim>\<open>'choi'\<close>\<close>
  "chan_chi = chan_super\<lparr>superrep := Some ''chi''\<rparr>"

definition ket2 :: "real qobj" where
  \<comment> \<open>\<^verbatim>\<open>basis(2, 0)\<close>\<close>
  "ket2 = \<lparr>data = [[1], [0]], dims = ([Dim 2], [Dim 1]), type = ''ket'',
           superrep = None, isherm = Some False\<rparr>"

definition tiny :: "real qobj" where
  \<comment> \<open>a one-by-one operator with an entry below the tidy-up tolerance\<close>
  "tiny = \<lparr>data = [[1 / 10 ^ 13]], dims = ([Dim 1], [Dim 1]), type = ''oper'',
           superrep = None, isherm = Some True\<rparr>"

text \<open>A matrix of \<open>n\<close> rows of \<open>n\<close> entries.\<close>

definition is_square :: "nat \<Rightarrow> 'a list list \<Rightarrow> bool" where
  "is_square n m = (length m = n \<and> list_all (\<lambda>row. length row = n) m)"

section \<open>Properties of the reshape\<close>

lemma isqrt_from_square: "d \<le> k \<Longrightarrow> isqrt_from k (d * d) = d"
proof (induction k)
  case 0
  then show ?case by simp
next
  case (Suc k)
  show ?case
  proof (cases "d = Suc k")
    case True
    then show ?thesis by simp
  next
    case False
    with Suc.prems have dk: "d \<le> k" by simp
    then have "d * d < Suc k * Suc k"
      by (meson le_imp_less_Suc mult_strict_mono' zero_le)
    then show ?thesis using Suc.IH [OF dk] by simp
  qed
qed

lemma isqrt_square: "isqrt (d * d) = d"
proof -
  have "d \<le> d * d" by (cases d) simp_all
  then show ?thesis unfolding isqrt_def by (rule isqrt_from_square)
qed

text \<open>Flat index and four indices are inverse to each other below \<open>d ^ 4\<close>.\<close>

lemma unravel4_ravel4:
  assumes "a < d" "b < d" "c < d" "e < d"
  shows "unravel4 d (ravel4 d (a, b, c, e)) = (a, b, c, e)"
proof -
  let ?k = "((a * d + b) * d + c) * d + e"
  have k1: "?k mod d = e" "?k div d = (a * d + b) * d + c"
    using assms by simp_all
  have k2: "((a * d + b) * d + c) mod d = c" "((a * d + b) * d + c) div d = a * d + b"
    using assms by simp_all
  have k3: "(a * d + b) mod d = b" "(a * d + b) div d = a"
    using assms by simp_all
  have "?k div (d * d) = (?k div d) div d"
    by (rule div_mult2_eq)
  then have d2: "?k div (d * d) = a * d + b"
    unfolding k1 k2 .
  have "?k div (d * d * d) = (?k div (d * d)) div d"
    by (rule div_mult2_eq)
  then have d3: "?k div (d * d * d) = a"
    unfolding d2 k3 .
  show ?thesis
    unfolding unravel4_def ravel4_def prod.case d3 d2 k1 k2 k3 ..
qed

lemma unravel4_bounds:
  assumes "k < d * d * d * d"
  shows "fst (unravel4 d k) < d" "fst (snd (unravel4 d k)) < d"
    "fst (snd (snd (unravel4 d k))) < d" "snd (snd (snd (unravel4 d k))) < d"
proof -
  from assms have dpos: "0 < d" by (cases d) simp_all
  have "k < d * (d * d * d)" using assms by (simp add: mult.assoc)
  then have "k div (d * d * d) < d"
    using dpos by (simp add: less_mult_imp_div_less mult.commute)
  then show "fst (unravel4 d k) < d" by (simp add: unravel4_def)
  show "fst (snd (unravel4 d k)) < d" "fst (snd (snd (unravel4 d k))) < d"
    "snd (snd (snd (unravel4 d k))) < d"
    using dpos by (simp_all add: unravel4_def)
qed

lemma ravel4_unravel4: "ravel4 d (unravel4 d k) = k"
proof -
  have e1: "k div (d * d) = (k div d) div d"
    by (rule div_mult2_eq)
  have e2: "k div (d * d * d) = ((k div d) div d) div d"
    by (simp add: div_mult2_eq)
  have "((k div d div d div d * d + k div d div d mod d) * d + k div d mod d) * d + k mod d = k"
    by simp
  then show ?thesis
    unfolding unravel4_def ravel4_def prod.case e1 e2 .
qed

lemma ravel4_less:
  assumes "a < d" "b < d" "c < d" "e < d"
  shows "ravel4 d (a, b, c, e) < d * d * d * d"
proof -
  have "ravel4 d (a, b, c, e) div (d * d * d) < d"
    using unravel4_ravel4 [OF assms] assms(1) by (simp add: unravel4_def)
  moreover have "0 < d" using assms(1) by simp
  ultimately show ?thesis
    by (metis div_less_iff_less_mult mult.commute mult_pos_pos)
qed

lemma transpose_index_less: "k < d * d * d * d \<Longrightarrow> transpose_index d k < d * d * d * d"
  using unravel4_bounds [of k d]
  by (auto simp: transpose_index_def split: prod.splits intro: ravel4_less)

lemma transpose_index_twice:
  assumes k: "k < d * d * d * d"
  shows "transpose_index d (transpose_index d k) = k"
proof -
  obtain i0 i1 i2 i3 where u: "unravel4 d k = (i0, i1, i2, i3)"
    by (cases "unravel4 d k") auto
  with unravel4_bounds [OF k] have b: "i0 < d" "i1 < d" "i2 < d" "i3 < d" by simp_all
  have "transpose_index d (transpose_index d k) = ravel4 d (i0, i1, i2, i3)"
    by (simp add: transpose_index_def u unravel4_ravel4 b)
  also have "\<dots> = k" using ravel4_unravel4 [of d k] u by simp
  finally show ?thesis .
qed

lemma transpose_3120_length: "length (transpose_3120 d xs) = d * d * d * d"
  by (simp add: transpose_3120_def)

lemma transpose_3120_twice:
  assumes "length xs = d * d * d * d"
  shows "transpose_3120 d (transpose_3120 d xs) = xs"
proof (rule nth_equalityI)
  show "length (transpose_3120 d (transpose_3120 d xs)) = length xs"
    by (simp add: transpose_3120_length assms)
next
  fix i assume "i < length (transpose_3120 d (transpose_3120 d xs))"
  then have i: "i < d * d * d * d" by (simp add: transpose_3120_length)
  then show "transpose_3120 d (transpose_3120 d xs) ! i = xs ! i"
    by (simp add: transpose_3120_def transpose_index_less transpose_index_twice)
qed

text \<open>Cutting a flat buffer into rows and flattening the rows are inverse to each other.\<close>

lemma reshape2_Suc: "reshape2 (Suc k, c) xs = take c xs # reshape2 (k, c) (drop c xs)"
proof -
  have "[0..<Suc k] = 0 # map Suc [0..<k]"
    by (simp add: upt_conv_Cons map_Suc_upt del: upt_Suc)
  then show ?thesis
    by (simp add: reshape2_def comp_def add.commute del: upt_Suc)
qed

lemma reshape2_0: "reshape2 (0, c) xs = []"
  by (simp add: reshape2_def)

lemma reshape2_ravel:
  "list_all (\<lambda>row. length row = c) m \<Longrightarrow> reshape2 (length m, c) (ravel m) = m"
  by (induction m) (simp_all add: reshape2_0 reshape2_Suc ravel_def)

lemma ravel_reshape2: "length xs = r * c \<Longrightarrow> ravel (reshape2 (r, c) xs) = xs"
proof (induction r arbitrary: xs)
  case 0
  then show ?case by (simp add: reshape2_0 ravel_def)
next
  case (Suc r)
  then have "length (drop c xs) = r * c" by simp
  from Suc.IH [OF this] show ?case
    by (simp add: reshape2_Suc ravel_def)
qed

lemma length_ravel: "list_all (\<lambda>row. length row = c) m \<Longrightarrow> length (ravel m) = length m * c"
  by (induction m) (simp_all add: ravel_def)

lemma reshape2_rows:
  "length xs = r * c \<Longrightarrow>
     length (reshape2 (r, c) xs) = r \<and> list_all (\<lambda>row. length row = c) (reshape2 (r, c) xs)"
proof (induction r arbitrary: xs)
  case 0
  then show ?case by (simp add: reshape2_0)
next
  case (Suc r)
  then have "length (drop c xs) = r * c" by simp
  from Suc.IH [OF this] Suc.prems show ?case
    by (simp add: reshape2_Suc)
qed

lemma shape_square: "is_square n m \<Longrightarrow> shape m = (n, n)"
  by (cases m) (auto simp: is_square_def shape_def)

lemma is_square_reshape2: "length xs = n * n \<Longrightarrow> is_square n (reshape2 (n, n) xs)"
  using reshape2_rows [of xs n n] by (simp add: is_square_def)

lemma super_tofrom_choi_square:
  assumes "is_square (d * d) (data q)"
  shows "super_tofrom_choi X q
           = Inr (Qobj X (dims q) (reshape2 (d * d, d * d) (transpose_3120 d (ravel (data q)))))"
proof -
  have len: "length (ravel (data q)) = d * d * d * d"
    using assms length_ravel [of "d * d" "data q"] by (simp add: is_square_def mult.assoc)
  show ?thesis
    unfolding super_tofrom_choi_def Let_def shape_square [OF assms] fst_conv isqrt_square
    using len by simp
qed

lemma super_tofrom_choi_data_square:
  assumes "is_square (d * d) (data q)"
  shows "is_square (d * d) (reshape2 (d * d, d * d) (transpose_3120 d (ravel (data q))))"
  by (rule is_square_reshape2) (simp add: transpose_3120_length mult.assoc)

lemma super_tofrom_choi_twice:
  assumes sq: "is_square (d * d) (data q)"
  shows "bind_err (super_tofrom_choi X q) (super_tofrom_choi X)
           = Inr (Qobj X (dims q) (data q))"
proof -
  let ?y = "Qobj X (dims q) (reshape2 (d * d, d * d) (transpose_3120 d (ravel (data q))))"
  have len: "length (ravel (data q)) = d * d * d * d"
    using sq length_ravel [of "d * d" "data q"] by (simp add: is_square_def mult.assoc)
  have ysq: "is_square (d * d) (data ?y)"
    using super_tofrom_choi_data_square [OF sq] by (simp add: Qobj_def)
  have rav: "ravel (data ?y) = transpose_3120 d (ravel (data q))"
    by (simp add: Qobj_def ravel_reshape2 transpose_3120_length mult.assoc)
  have "reshape2 (d * d, d * d) (transpose_3120 d (ravel (data ?y))) = data q"
    unfolding rav transpose_3120_twice [OF len]
    using sq reshape2_ravel [of "d * d" "data q"] by (simp add: is_square_def)
  then have "super_tofrom_choi X ?y = Inr (Qobj X (dims q) (data q))"
    unfolding super_tofrom_choi_square [OF ysq] by (simp add: Qobj_def)
  then show ?thesis
    by (simp add: bind_err_def super_tofrom_choi_square [OF sq])
qed

lemma isqrt_4: "isqrt 4 = 2"
  by (simp add: isqrt_def eval_nat_numeral)

lemma upt_16: "[0..<16] = [0, 1, 2, 3, 4, 5, 6, 7, 8, 9, 10, 11, 12, 13, 14, 15]"
  by (simp add: upt_rec)

lemma upt_4: "[0..<4] = [0, 1, 2, 3]"
  by (simp add: upt_rec)

lemma transpose_3120_qubit:
  "transpose_3120 2 [a0, a1, a2, a3, b0, b1, b2, b3, c0, c1, c2, c3, e0, e1, e2, e3]
     = [a0, c0, a2, c2, b0, e0, b2, e2, a1, c1, a3, c3, b1, e1, b3, e3]"
  by (simp add: transpose_3120_def transpose_index_def upt_16 unravel4_def ravel4_def)

text \<open>
  C1. For every real \<open>pe\<close>, the Super-to-Choi core transform applied to the qubit
  depolarizing Super matrix yields exactly the reference Choi matrix (the objects that
  \<^verbatim>\<open>_dep_super\<close> and \<^verbatim>\<open>_dep_choi\<close> build have the same dims, so the whole result
  object is the reference object).
\<close>

theorem dep_super_to_choi:
  "super_tofrom_choi X (dep_super X pe) = Inr (dep_choi X pe)"
proof -
  let ?m = "data (dep_super X pe)"
  have sh: "shape ?m = (4, 4)"
    by (simp add: dep_super_def Qobj_def shape_def)
  have rv: "ravel ?m = [1 - pe / 2, 0, 0, pe / 2, 0, 1 - pe, 0, 0,
                        0, 0, 1 - pe, 0, pe / 2, 0, 0, 1 - pe / 2]"
    by (simp add: dep_super_def Qobj_def ravel_def)
  have len: "length (ravel ?m) = 2 * 2 * 2 * 2"
    unfolding rv by simp
  have "super_tofrom_choi X (dep_super X pe)
          = Inr (Qobj X (dims (dep_super X pe))
              (reshape2 (4, 4) (transpose_3120 2 (ravel ?m))))"
    unfolding super_tofrom_choi_def Let_def sh fst_conv isqrt_4 using len by simp
  also have "\<dots> = Inr (dep_choi X pe)"
    unfolding rv transpose_3120_qubit
    by (simp add: dep_super_def dep_choi_def Qobj_def reshape2_def upt_4)
  finally show ?thesis .
qed

section \<open>Properties of the dispatch functions\<close>

lemma super_tofrom_choi_attrs:
  "super_tofrom_choi X q = Inr y \<Longrightarrow> type y = classify X (dims q) \<and> dims y = dims q"
  by (auto simp: super_tofrom_choi_def Let_def Qobj_def split: if_splits)

lemma super_to_choi_attrs:
  "super_to_choi X q = Inr y \<Longrightarrow>
     type y = classify X (dims q) \<and> dims y = dims q \<and> superrep y = Some ''choi''"
  by (auto simp: super_to_choi_def split: sum.splits dest: super_tofrom_choi_attrs)

lemma choi_to_super_attrs:
  "choi_to_super X q = Inr y \<Longrightarrow>
     type y = classify X (dims q) \<and> dims y = dims q \<and> superrep y = Some ''super''"
  by (auto simp: choi_to_super_def split: sum.splits dest: super_to_choi_attrs)

lemma to_choi_twice:
  assumes "type q = ''super''" "classify X (dims q) = ''super''"
  shows "bind_err (to_choi X q) (to_choi X) = to_choi X q"
proof (cases "to_choi X q")
  case (Inl e)
  then show ?thesis by (simp add: bind_err_def)
next
  case (Inr y)
  have "type y = ''super'' \<and> superrep y = Some ''choi''"
  proof (cases "superrep q = Some ''choi''")
    case True
    with Inr assms show ?thesis by (simp add: to_choi_def)
  next
    case False
    with Inr assms have "super_to_choi X q = Inr y"
      by (simp add: to_choi_def split: if_splits)
    from super_to_choi_attrs [OF this] assms show ?thesis by simp
  qed
  then have "to_choi X y = Inr y" by (simp add: to_choi_def)
  with Inr show ?thesis by (simp add: bind_err_def)
qed

lemma to_super_twice:
  assumes "type q = ''super''" "classify X (dims q) = ''super''"
    and "superrep q = Some ''super'' \<or> superrep q = Some ''choi''"
  shows "bind_err (to_super X q) (on_value (to_super X)) = to_super X q"
proof (cases "to_super X q")
  case (Inl e)
  then show ?thesis by (simp add: bind_err_def)
next
  case (Inr v)
  have "\<exists>y. v = Some y \<and> type y = ''super'' \<and> superrep y = Some ''super''"
  proof (cases "superrep q = Some ''super''")
    case True
    with Inr assms show ?thesis by (auto simp: to_super_def)
  next
    case False
    with assms have c: "superrep q = Some ''choi''" by simp
    with Inr assms obtain y where y: "choi_to_super X q = Inr y" "v = Some y"
      by (auto simp: to_super_def split: sum.splits)
    from choi_to_super_attrs [OF y(1)] assms y(2) show ?thesis by simp
  qed
  then obtain y where "v = Some y" "to_super X y = Inr (Some y)"
    by (auto simp: to_super_def)
  with Inr show ?thesis by (simp add: bind_err_def on_value_def)
qed

lemma classify0_super:
  "classify0 ([Sub [Dim 2], Sub [Dim 2]], [Sub [Dim 2], Sub [Dim 2]]) = ''super''"
  by (simp add: classify0_def)


lemma to_super_chan_choi:
  "to_super ext0 chan_choi = Inr (Some (chan_super\<lparr>isherm := None\<rparr>))"
proof -
  have sq: "is_square (2 * 2) (data chan_choi)"
    by (simp add: chan_choi_def is_square_def)
  have "reshape2 (2 * 2, 2 * 2) (transpose_3120 2 (ravel (data chan_choi))) = data chan_super"
    by (simp add: chan_choi_def chan_super_def ravel_def transpose_3120_qubit reshape2_def
        upt_4)
  then have "super_tofrom_choi ext0 chan_choi
      = Inr (Qobj ext0 (dims chan_choi) (data chan_super))"
    by (simp add: super_tofrom_choi_square [OF sq])
  then show ?thesis
    by (simp add: to_super_def choi_to_super_def super_to_choi_def Qobj_def chan_choi_def
        chan_super_def ext0_def classify0_super)
qed

text \<open>
  C2 (as amended). For every object \<open>q\<close> whose data is a \<open>d\<^sup>2 \<times> d\<^sup>2\<close> matrix, applying
  the reshape-permute transform twice succeeds and returns \<open>q\<close>'s matrix; and if \<open>q\<close> is a
  super-operator tagged \<^verbatim>\<open>'super'\<close> (its kind being the one its dims give), then
  \<^verbatim>\<open>to_super(to_choi(q))\<close> succeeds with an object that has \<open>q\<close>'s matrix.
\<close>

theorem super_choi_involution:
  assumes sq: "is_square (d * d) (data q)"
  shows "(\<exists>y z. super_tofrom_choi X q = Inr y \<and> super_tofrom_choi X y = Inr z
              \<and> data z = data q)
       \<and> (type q = ''super'' \<and> superrep q = Some ''super'' \<and> classify X (dims q) = ''super''
            \<longrightarrow> (\<exists>z. bind_err (to_choi X q) (to_super X) = Inr (Some z) \<and> data z = data q))"
proof (intro conjI impI)
  let ?y = "Qobj X (dims q) (reshape2 (d * d, d * d) (transpose_3120 d (ravel (data q))))"
  have y: "super_tofrom_choi X q = Inr ?y"
    by (rule super_tofrom_choi_square [OF sq])
  have z: "super_tofrom_choi X ?y = Inr (Qobj X (dims q) (data q))"
    using super_tofrom_choi_twice [OF sq, of X] by (simp add: bind_err_def y)
  show "\<exists>y z. super_tofrom_choi X q = Inr y \<and> super_tofrom_choi X y = Inr z \<and> data z = data q"
    using y z by (auto simp: Qobj_def)
  assume a: "type q = ''super'' \<and> superrep q = Some ''super'' \<and> classify X (dims q) = ''super''"
  let ?c = "?y\<lparr>superrep := Some ''choi''\<rparr>"
  have c: "to_choi X q = Inr ?c"
    using a by (simp add: to_choi_def super_to_choi_def y)
  have tc: "type ?c = ''super''" "superrep ?c = Some ''choi''"
    using a by (simp_all add: Qobj_def)
  have "super_tofrom_choi X ?c = super_tofrom_choi X ?y"
    by (simp add: super_tofrom_choi_def Let_def)
  then have "to_super X ?c
      = Inr (Some ((Qobj X (dims q) (data q))\<lparr>superrep := Some ''super''\<rparr>))"
    using tc z by (simp add: to_super_def choi_to_super_def super_to_choi_def)
  then show "\<exists>z. bind_err (to_choi X q) (to_super X) = Inr (Some z) \<and> data z = data q"
    by (simp add: c bind_err_def Qobj_def)
qed


theorem super_choi_involution_witness:
  "is_square (2 * 2) (data chan_super) \<and> type chan_super = ''super''
   \<and> superrep chan_super = Some ''super'' \<and> classify ext0 (dims chan_super) = ''super''
   \<and> (\<exists>z. bind_err (to_choi ext0 chan_super) (to_super ext0) = Inr (Some z)
          \<and> data z = data chan_super)"
proof -
  have sq: "is_square (2 * 2) (data chan_super)"
    by (simp add: chan_super_def is_square_def)
  have h: "type chan_super = ''super''" "superrep chan_super = Some ''super''"
    "classify ext0 (dims chan_super) = ''super''"
    by (simp_all add: chan_super_def ext0_def classify0_super)
  from super_choi_involution [OF sq, of ext0] sq h show ?thesis
    by blast
qed

text \<open>
  C2 as stated fails for a super-operator tagged \<^verbatim>\<open>'choi'\<close>: \<^verbatim>\<open>to_choi\<close> returns it as it
  is and \<^verbatim>\<open>to_super\<close> applies the transform once, so the result carries the Super matrix
  of the channel, not the matrix of the input.
\<close>

theorem super_choi_involution_counterexample:
  "bind_err (to_choi ext0 chan_choi) (to_super ext0) = Inr (Some (chan_super\<lparr>isherm := None\<rparr>))
   \<and> data (chan_super\<lparr>isherm := None\<rparr>) \<noteq> data chan_choi"
proof -
  have c: "to_choi ext0 chan_choi = Inr chan_choi"
    by (simp add: to_choi_def chan_choi_def)
  moreover have "data (chan_super\<lparr>isherm := None\<rparr>) \<noteq> data chan_choi"
    by (simp add: chan_super_def chan_choi_def)
  ultimately show ?thesis
    by (simp add: to_super_chan_choi bind_err_def)
qed

text \<open>
  On a super-operator tagged \<^verbatim>\<open>'super'\<close> or \<^verbatim>\<open>'choi'\<close> (kind the one its dims give),
  \<^verbatim>\<open>to_choi\<close> and \<^verbatim>\<open>to_super\<close> are idempotent: calling the function on its own result
  gives that result again, an exception of the first call being the outcome of both
  sides; an object already in the requested representation is returned unchanged.
\<close>

lemma dispatch_idempotent_tagged:
  assumes "type q = ''super''" "classify X (dims q) = ''super''"
    and "superrep q = Some ''super'' \<or> superrep q = Some ''choi''"
  shows "bind_err (to_choi X q) (to_choi X) = to_choi X q
       \<and> bind_err (to_super X q) (on_value (to_super X)) = to_super X q
       \<and> (superrep q = Some ''choi'' \<longrightarrow> to_choi X q = Inr q)
       \<and> (superrep q = Some ''super'' \<longrightarrow> to_super X q = Inr (Some q))"
  using to_choi_twice [OF assms(1,2)] to_super_twice [OF assms] assms(1)
  by (simp add: to_choi_def to_super_def)

text \<open>
  C8, on the code. \<^verbatim>\<open>to_super\<close> is not idempotent on every super-operator: for one
  whose tag is neither \<^verbatim>\<open>'super'\<close> nor \<^verbatim>\<open>'choi'\<close>, \<^verbatim>\<open>to_super(X)\<close> returns \<^verbatim>\<open>None\<close> and
  \<^verbatim>\<open>to_super(to_super(X))\<close> raises \<^verbatim>\<open>AttributeError\<close>, so the two differ. \<^verbatim>\<open>to_choi\<close>
  raises the same \<^verbatim>\<open>TypeError\<close> on both sides there.
\<close>

theorem to_super_not_idempotent:
  assumes "type q = ''super''" "superrep q \<noteq> Some ''super''" "superrep q \<noteq> Some ''choi''"
  shows "to_super X q = Inr None
       \<and> bind_err (to_super X q) (on_value (to_super X))
           = Inl (AttributeError ''NoneType object has no attribute type'')
       \<and> bind_err (to_super X q) (on_value (to_super X)) \<noteq> to_super X q
       \<and> bind_err (to_choi X q) (to_choi X) = to_choi X q"
  using assms by (simp add: to_super_def to_choi_def bind_err_def on_value_def)

theorem to_super_not_idempotent_witness:
  "type chan_chi = ''super'' \<and> superrep chan_chi \<noteq> Some ''super''
   \<and> superrep chan_chi \<noteq> Some ''choi''
   \<and> to_super ext0 chan_chi = Inr None
   \<and> bind_err (to_super ext0 chan_chi) (on_value (to_super ext0))
       = Inl (AttributeError ''NoneType object has no attribute type'')"
proof -
  have h: "type chan_chi = ''super''" "superrep chan_chi \<noteq> Some ''super''"
    "superrep chan_chi \<noteq> Some ''choi''"
    by (simp_all add: chan_chi_def chan_super_def)
  from to_super_not_idempotent [OF h, of ext0] h show ?thesis
    by blast
qed

text \<open>
  C3, on the code. For a kind that is neither \<^verbatim>\<open>'super'\<close> nor \<^verbatim>\<open>'oper'\<close>, \<^verbatim>\<open>to_super\<close> and
  \<^verbatim>\<open>to_kraus\<close> raise \<^verbatim>\<open>TypeError\<close> with the kind and the tag in the message, but
  \<^verbatim>\<open>to_choi\<close> raises \<^verbatim>\<open>AttributeError\<close>. For a super-operator whose tag is neither
  \<^verbatim>\<open>'super'\<close> nor \<^verbatim>\<open>'choi'\<close>, \<^verbatim>\<open>to_choi\<close> raises \<^verbatim>\<open>TypeError\<close> with the tag, but
  \<^verbatim>\<open>to_super\<close> and \<^verbatim>\<open>to_kraus\<close> return \<^verbatim>\<open>None\<close>.
\<close>

theorem dispatch_unsupported:
  "(type q \<noteq> ''super'' \<and> type q \<noteq> ''oper'' \<longrightarrow>
      to_choi X q = Inl (AttributeError ''Qobj object has no attribute choi'')
    \<and> to_super X q = Inl (TypeError (''Conversion of Qobj with type = '' @ type q
          @ '' and superrep = '' @ py_str (superrep q) @ '' to supermatrix not supported.''))
    \<and> to_kraus X q = Inl (TypeError (''Conversion of Qobj with type = '' @ type q
          @ '' and superrep = '' @ py_str (superrep q)
          @ '' to Kraus decomposition not supported.'')))
   \<and> (type q = ''super'' \<and> superrep q \<noteq> Some ''super'' \<and> superrep q \<noteq> Some ''choi'' \<longrightarrow>
      to_choi X q = Inl (TypeError (py_str (superrep q)))
    \<and> to_super X q = Inr None
    \<and> to_kraus X q = Inr None)"
  by (simp add: to_choi_def to_super_def)

theorem dispatch_unsupported_witness:
  "type ket2 \<noteq> ''super'' \<and> type ket2 \<noteq> ''oper''
   \<and> to_choi ext0 ket2 = Inl (AttributeError ''Qobj object has no attribute choi'')
   \<and> type chan_chi = ''super'' \<and> superrep chan_chi \<noteq> Some ''super''
   \<and> superrep chan_chi \<noteq> Some ''choi''
   \<and> to_super ext0 chan_chi = Inr None \<and> to_kraus ext0 chan_chi = Inr None"
proof -
  have k: "type ket2 \<noteq> ''super'' \<and> type ket2 \<noteq> ''oper''"
    by (simp add: ket2_def)
  have c: "type chan_chi = ''super'' \<and> superrep chan_chi \<noteq> Some ''super''
      \<and> superrep chan_chi \<noteq> Some ''choi''"
    by (simp add: chan_chi_def chan_super_def)
  from dispatch_unsupported [of ket2 ext0] dispatch_unsupported [of chan_chi ext0] k c
  show ?thesis by blast
qed

section \<open>Properties of tensor\<close>

lemma qobjs_map_PQobj: "qobjs (map PQobj qs) = qs"
  by (induction qs) simp_all

lemma is_Qobj_map_PQobj: "list_all is_Qobj (map PQobj qs)"
  by (induction qs) simp_all

lemma tensor_step_superrep: "superrep (foldl (tensor_step X) out nqs) = superrep out"
  by (induction nqs arbitrary: out) (simp_all add: tensor_step_def Let_def split: prod.splits)

lemma tensor_step_data:
  "0 < n \<Longrightarrow>
     data (foldl (tensor_step X) out (enumerate n qs)) = foldl kron (data out) (map data qs)"
  by (induction qs arbitrary: out n) (simp_all add: tensor_step_def Let_def)

lemma tensor_step_dims:
  "0 < n \<Longrightarrow> dims (foldl (tensor_step X) out (enumerate n qs))
     = (fst (dims out) @ concat (map (\<lambda>q. fst (dims q)) qs),
        snd (dims out) @ concat (map (\<lambda>q. snd (dims q)) qs))"
  by (induction qs arbitrary: out n) (simp_all add: tensor_step_def Let_def)

lemma tensor_step_type:
  "type out = classify X (dims out) \<Longrightarrow>
     type (foldl (tensor_step X) out nqs) = classify X (dims (foldl (tensor_step X) out nqs))"
  by (induction nqs arbitrary: out) (simp_all add: tensor_step_def Let_def split: prod.splits)

lemma foldl_py_and:
  "truthy (foldl py_and v fs) \<longleftrightarrow> truthy v \<and> list_all (\<lambda>f. f = Some True) fs"
  by (induction fs arbitrary: v) (auto simp: py_and_def truthy_def)

lemma tensor_step_isherm:
  "isherm (foldl (tensor_step X) out (enumerate n qs))
     = foldl py_and (isherm out) (map isherm qs)"
  by (induction qs arbitrary: out n) (simp_all add: tensor_step_def Let_def)


lemma tensor_qlist_mismatch:
  assumes "issuper q0" "\<not> list_all (\<lambda>q. superrep q = superrep q0) (q0 # rest)"
  shows "tensor_qlist X (map PQobj (q0 # rest))
           = Inl (TypeError (''In tensor products of superroperators, all must''
                    @ ''have the same representation''))"
proof -
  have q: "qobjs (PQobj q0 # map PQobj rest) = q0 # rest"
    using qobjs_map_PQobj [of "q0 # rest"] by simp
  have a: "list_all is_Qobj (map PQobj rest)"
    by (rule is_Qobj_map_PQobj)
  show ?thesis
    using assms by (simp add: tensor_qlist_def qobjs_map_PQobj a Let_def)
qed

lemma tensor_qlist_result:
  assumes ok: "issuper q0 \<longrightarrow> list_all (\<lambda>q. superrep q = superrep q0) (q0 # rest)"
  shows "\<exists>out. tensor_qlist X (map PQobj (q0 # rest)) = Inr (tidy_result X out)
     \<and> data out = foldl kron (data q0) (map data rest)
     \<and> dims out = (concat (map (\<lambda>q. fst (dims q)) (q0 # rest)),
                   concat (map (\<lambda>q. snd (dims q)) (q0 # rest)))
     \<and> type out = classify X (dims out)
     \<and> superrep out = (if issuper q0 then superrep q0 else None)
     \<and> isherm out = (if list_all (\<lambda>q. isherm q = Some True) (q0 # rest)
                      then Some True else None)"
proof -
  let ?o0 = "Qobj X ([], []) []"
  let ?o1 = "(if issuper q0 then ?o0\<lparr>superrep := superrep q0\<rparr> else ?o0)
               \<lparr>isherm := Some True\<rparr>"
  let ?o2 = "tensor_step X ?o1 (0, q0)"
  let ?o3 = "foldl (tensor_step X) ?o2 (enumerate 1 rest)"
  let ?out = "if \<not> truthy (isherm ?o3) then ?o3\<lparr>isherm := None\<rparr> else ?o3"
  have q: "qobjs (PQobj q0 # map PQobj rest) = q0 # rest"
    using qobjs_map_PQobj [of "q0 # rest"] by simp
  have a: "list_all is_Qobj (map PQobj rest)"
    by (rule is_Qobj_map_PQobj)
  have s1: "superrep ?o1 = (if issuper q0 then superrep q0 else None)"
    by (simp add: Qobj_def)
  have chk: "\<not> (issuper q0 \<and> \<not> list_all (\<lambda>q. superrep q = superrep
        (if issuper q0 then ?o0\<lparr>superrep := superrep q0\<rparr> else ?o0)) (q0 # rest))"
    using ok by simp
  have run: "tensor_qlist X (map PQobj (q0 # rest)) = Inr (tidy_result X ?out)"
    using chk by (simp add: tensor_qlist_def qobjs_map_PQobj a Let_def)
  have o2: "data ?o2 = data q0" "dims ?o2 = dims q0" "type ?o2 = classify X (dims ?o2)"
    "isherm ?o2 = isherm q0" "superrep ?o2 = superrep ?o1"
    by (simp_all add: tensor_step_def Let_def py_and_def truthy_def)
  have d3: "data ?o3 = foldl kron (data q0) (map data rest)"
    using tensor_step_data [of 1 X ?o2 rest] o2(1) by simp
  have m3: "dims ?o3 = (concat (map (\<lambda>q. fst (dims q)) (q0 # rest)),
                        concat (map (\<lambda>q. snd (dims q)) (q0 # rest)))"
    using tensor_step_dims [of 1 X ?o2 rest] o2(2) by simp
  have t3: "type ?o3 = classify X (dims ?o3)"
    by (rule tensor_step_type [OF o2(3)])
  have r3: "superrep ?o3 = (if issuper q0 then superrep q0 else None)"
    using tensor_step_superrep [of X ?o2 "enumerate 1 rest"] o2(5) s1 by simp
  have h3: "isherm ?o3 = foldl py_and (isherm q0) (map isherm rest)"
    using tensor_step_isherm [of X ?o2 1 rest] o2(4) by simp
  have tr: "truthy (isherm ?o3) \<longleftrightarrow> list_all (\<lambda>q. isherm q = Some True) (q0 # rest)"
    unfolding h3 foldl_py_and by (simp add: truthy_def list_all_iff)
  have h: "isherm ?out = (if list_all (\<lambda>q. isherm q = Some True) (q0 # rest)
                          then Some True else None)"
    using tr by (auto simp: truthy_def)
  have "data ?out = data ?o3" "dims ?out = dims ?o3" "type ?out = type ?o3"
    "superrep ?out = superrep ?o3"
    by simp_all
  with d3 m3 t3 r3 h run show ?thesis
    by (intro exI [of _ ?out]) simp
qed

lemma tensor_variadic:
  "tensor X (map PQobj (q0 # q1 # rest)) = tensor_qlist X (map PQobj (q0 # q1 # rest))"
  by (simp add: tensor_def)

lemma tensor_of_list:
  "tensor X [PList qlist] = tensor_qlist X qlist"
  by (simp add: tensor_def)

text \<open>
  C4 (as amended). For two or more operands that pass the representation check (the first
  is no super-operator, or all carry its tag), \<^verbatim>\<open>tensor\<close> returns, up to the tidy-up pass,
  an object whose hermiticity flag is true if every operand's flag is true and unknown
  otherwise: a false operand flag, like an unknown one, leaves the result flag unknown.
\<close>

theorem tensor_isherm:
  assumes "issuper q0 \<longrightarrow> list_all (\<lambda>q. superrep q = superrep q0) (q0 # q1 # rest)"
  shows "\<exists>out. tensor X (map PQobj (q0 # q1 # rest)) = Inr (tidy_result X out)
     \<and> isherm out = (if list_all (\<lambda>q. isherm q = Some True) (q0 # q1 # rest)
                      then Some True else None)"
  using tensor_qlist_result [OF assms, of X] unfolding tensor_variadic by blast

theorem tensor_isherm_witness:
  "\<not> issuper oper2
   \<and> (\<exists>out. tensor ext0 (map PQobj [oper2, oper2, oper2]) = Inr (tidy_result ext0 out)
         \<and> isherm out = Some True)"
proof -
  have n: "\<not> issuper oper2"
    by (simp add: issuper_def oper2_def)
  then have "issuper oper2
      \<longrightarrow> list_all (\<lambda>q. superrep q = superrep oper2) [oper2, oper2, oper2]"
    by simp
  moreover have "isherm oper2 = Some True"
    by (simp add: oper2_def)
  ultimately show ?thesis
    using tensor_isherm [of oper2 oper2 "[oper2]" ext0] n by simp
qed

text \<open>
  C4 as stated fails: with one operand flag true and the other false (none unknown) the
  result flag is unknown, not false, because \<^verbatim>\<open>if not out.isherm: out._isherm = None\<close>
  resets it.
\<close>

theorem tensor_isherm_counterexample:
  "isherm oper2 = Some True \<and> isherm oper3 = Some False
   \<and> map_sum id isherm (tensor ext0 [PQobj oper2, PQobj oper3]) = Inr None"
proof -
  have n: "issuper oper2 \<longrightarrow> list_all (\<lambda>q. superrep q = superrep oper2) [oper2, oper3]"
    by (simp add: issuper_def oper2_def)
  from tensor_qlist_result [OF n, of ext0]
  obtain out where "tensor_qlist ext0 [PQobj oper2, PQobj oper3] = Inr (tidy_result ext0 out)"
    and "isherm out = None"
    by (auto simp: oper3_def)
  then show ?thesis
    by (simp add: tensor_def tidy_result_def ext0_def oper2_def oper3_def)
qed

text \<open>
  C5 (as amended). If the first operand is a super-operator and the operands do not all
  carry its representation tag, \<^verbatim>\<open>tensor\<close> raises \<^verbatim>\<open>TypeError\<close>, called with the
  operands or with their list.
\<close>

theorem tensor_mismatch:
  assumes "issuper q0" "\<not> list_all (\<lambda>q. superrep q = superrep q0) (q0 # rest)"
  shows "tensor X (map PQobj (q0 # rest))
           = Inl (TypeError (''In tensor products of superroperators, all must''
                    @ ''have the same representation''))
       \<and> tensor X [PList (map PQobj (q0 # rest))]
           = Inl (TypeError (''In tensor products of superroperators, all must''
                    @ ''have the same representation''))"
proof -
  from assms(2) obtain q1 rest' where r: "rest = q1 # rest'"
    by (cases rest) auto
  show ?thesis
    using tensor_qlist_mismatch [OF assms, of X]
    unfolding tensor_of_list r tensor_variadic by simp
qed

theorem tensor_mismatch_witness:
  "issuper chan_super
   \<and> \<not> list_all (\<lambda>q. superrep q = superrep chan_super) [chan_super, chan_choi]
   \<and> tensor ext0 (map PQobj [chan_super, chan_choi])
       = Inl (TypeError (''In tensor products of superroperators, all must''
                @ ''have the same representation''))"
proof -
  have a: "issuper chan_super"
    by (simp add: issuper_def chan_super_def)
  have b: "\<not> list_all (\<lambda>q. superrep q = superrep chan_super) [chan_super, chan_choi]"
    by (simp add: chan_super_def chan_choi_def)
  from tensor_mismatch [OF a b, of ext0] a b show ?thesis
    by blast
qed

text \<open>
  C5 as stated fails: the check is made only if the first operand is a super-operator.
  Behind an ordinary operator, a Super-tagged and a Choi-tagged super-operator are
  tensored without an error.
\<close>

theorem tensor_mismatch_counterexample:
  "issuper chan_super \<and> issuper chan_choi \<and> superrep chan_super \<noteq> superrep chan_choi
   \<and> \<not> isl (tensor ext0 [PQobj oper2, PQobj chan_super, PQobj chan_choi])"
proof -
  have n: "issuper oper2
      \<longrightarrow> list_all (\<lambda>q. superrep q = superrep oper2) [oper2, chan_super, chan_choi]"
    by (simp add: issuper_def oper2_def)
  from tensor_qlist_result [OF n, of ext0]
  have "\<not> isl (tensor_qlist ext0 [PQobj oper2, PQobj chan_super, PQobj chan_choi])"
    by auto
  then show ?thesis
    by (simp add: tensor_def issuper_def chan_super_def chan_choi_def)
qed

text \<open>
  C6 (as amended). \<^verbatim>\<open>tensor\<close> with no argument raises \<^verbatim>\<open>TypeError\<close> with the message
  "Requires at least one input argument".
\<close>

theorem tensor_no_arguments:
  "tensor X [] = Inl (TypeError ''Requires at least one input argument'')"
  by (simp add: tensor_def)

theorem tensor_no_arguments_witness:
  "tensor ext1 [] = Inl (TypeError ''Requires at least one input argument'')"
  by (rule tensor_no_arguments)

text \<open>
  C6 as stated fails: the exception for no argument is of the class \<^verbatim>\<open>TypeError\<close>, the
  class that \<^verbatim>\<open>tensor\<close> raises for an argument that is no quantum object as well; the
  two differ in the message only.
\<close>

theorem tensor_no_arguments_counterexample:
  "tensor ext0 [] = Inl (TypeError ''Requires at least one input argument'')
   \<and> tensor ext0 [PNone] = Inl (TypeError ''One of inputs is not a quantum object'')"
  by (simp add: tensor_def tensor_qlist_def)

text \<open>
  C7 (as amended). For two or more operands that pass the representation check,
  \<^verbatim>\<open>tensor\<close> returns, up to the tidy-up pass, an object whose data is the Kronecker
  product of the operands' data taken left to right and whose dims are the first
  dims-lists of all operands, concatenated in call order, and the second dims-lists of
  all operands, concatenated in call order.
\<close>

theorem tensor_data_dims:
  assumes "issuper q0 \<longrightarrow> list_all (\<lambda>q. superrep q = superrep q0) (q0 # q1 # rest)"
  shows "\<exists>out. tensor X (map PQobj (q0 # q1 # rest)) = Inr (tidy_result X out)
     \<and> data out = foldl kron (data q0) (map data (q1 # rest))
     \<and> dims out = (concat (map (\<lambda>q. fst (dims q)) (q0 # q1 # rest)),
                   concat (map (\<lambda>q. snd (dims q)) (q0 # q1 # rest)))"
  using tensor_qlist_result [OF assms, of X] unfolding tensor_variadic by blast

text \<open>
  For operators with dims \<open>[[2], [2]]\<close> and \<open>[[3], [3]]\<close> and the tidy-up pass off, the
  result has the Kronecker product as data and dims \<open>[[2, 3], [2, 3]]\<close>.
\<close>

theorem tensor_data_dims_witness:
  "\<not> issuper oper2
   \<and> (\<exists>out. tensor ext0 [PQobj oper2, PQobj oper3] = Inr out
         \<and> data out = kron (data oper2) (data oper3)
         \<and> dims out = ([Dim 2, Dim 3], [Dim 2, Dim 3]))"
proof -
  have n: "\<not> issuper oper2"
    by (simp add: issuper_def oper2_def)
  then have "issuper oper2 \<longrightarrow> list_all (\<lambda>q. superrep q = superrep oper2) [oper2, oper3]"
    by simp
  from tensor_data_dims [OF this, of ext0] n show ?thesis
    by (simp add: tidy_result_def ext0_def oper2_def oper3_def)
qed

text \<open>
  C7 as stated fails on operands that do not pass the representation check, for which
  \<^verbatim>\<open>tensor\<close> raises, and with the tidy-up pass on, which replaces entries of the product
  below the tolerance by zero.
\<close>

theorem tensor_data_dims_counterexample:
  "tensor ext0 [PQobj chan_super, PQobj chan_choi]
     = Inl (TypeError (''In tensor products of superroperators, all must''
              @ ''have the same representation''))
   \<and> map_sum id data (tensor ext1 [PQobj tiny, PQobj tiny]) = Inr [[0]]
   \<and> kron (data tiny) (data tiny) \<noteq> [[0]]"
proof -
  have a: "issuper chan_super"
    by (simp add: issuper_def chan_super_def)
  have b: "\<not> list_all (\<lambda>q. superrep q = superrep chan_super) [chan_super, chan_choi]"
    by (simp add: chan_super_def chan_choi_def)
  have 1: "tensor ext0 [PQobj chan_super, PQobj chan_choi]
     = Inl (TypeError (''In tensor products of superroperators, all must''
              @ ''have the same representation''))"
    using tensor_qlist_mismatch [OF a b, of ext0] by (simp add: tensor_def)
  have n: "issuper tiny \<longrightarrow> list_all (\<lambda>q. superrep q = superrep tiny) [tiny, tiny]"
    by simp
  from tensor_qlist_result [OF n, of ext1]
  obtain out where
    o: "tensor_qlist ext1 [PQobj tiny, PQobj tiny] = Inr (tidy_result ext1 out)"
    and d: "data out = kron (data tiny) (data tiny)"
    by auto
  have k: "kron (data tiny) (data tiny) = [[1 / 10 ^ 26]]"
    by (simp add: kron_def tiny_def)
  have "data (tidy_result ext1 out) = [[0]]"
    by (simp add: tidy_result_def ext1_def ext0_def tidyup0_def d k)
  then have 2: "map_sum id data (tensor ext1 [PQobj tiny, PQobj tiny]) = Inr [[0]]"
    using o by (simp add: tensor_def)
  show ?thesis using 1 2 k by simp
qed

section \<open>Properties of super\_tensor and composite\<close>

text \<open>
  C10. \<^verbatim>\<open>super_tensor\<close> with no argument raises \<^verbatim>\<open>IndexError\<close>, from reading
  \<^verbatim>\<open>args[0]\<close>, and no \<^verbatim>\<open>TypeError\<close>: the function has no check for emptiness.
\<close>

theorem super_tensor_no_arguments:
  "super_tensor X [] = Some (Inl (IndexError ''tuple index out of range''))
   \<and> (\<forall>msg. super_tensor X [] \<noteq> Some (Inl (TypeError msg)))"
  by (simp add: super_tensor.simps)

theorem super_tensor_no_arguments_witness:
  "super_tensor ext0 [] = Some (Inl (IndexError ''tuple index out of range''))"
  using super_tensor_no_arguments [of ext0] by simp

lemma super_tensor_pair_returns:
  assumes "issuper S"
  shows "\<exists>r. super_tensor X [PQobj V, PQobj S] = Some r"
proof -
  have "\<not> isoperbra S" "\<not> isoperket S"
    using assms by (simp_all add: issuper_def isoperbra_def isoperket_def)
  then show ?thesis
    by (subst super_tensor.simps) (simp add: Let_def split: sum.splits list.splits)
qed

lemma composite_oper_super:
  assumes "type U = ''oper''" "type S = ''super''" "superrep S = Some ''super''"
  shows "composite X [PQobj U, PQobj S]
           = super_tensor X [PQobj (mul X (spre X U) (spost X (dag X U))), PQobj S]"
  using assms
  by (subst composite.simps)
     (simp add: Let_def isoperlike_def isoper_def issuper_def to_super_def)

text \<open>
  C9 (as amended). For every operator \<open>U\<close> and every super-operator \<open>S\<close> tagged
  \<^verbatim>\<open>'super'\<close>, \<^verbatim>\<open>to_super(U)\<close> returns an object \<open>V\<close>, and \<^verbatim>\<open>composite(U, S)\<close> and
  \<^verbatim>\<open>super_tensor(V, S)\<close> both return, with the same outcome.
\<close>

theorem composite_promotes:
  assumes "type U = ''oper''" "type S = ''super''" "superrep S = Some ''super''"
  shows "\<exists>V r. to_super X U = Inr (Some V) \<and> composite X [PQobj U, PQobj S] = Some r
            \<and> super_tensor X [PQobj V, PQobj S] = Some r"
proof -
  let ?V = "mul X (spre X U) (spost X (dag X U))"
  have "to_super X U = Inr (Some ?V)"
    using assms(1) by (simp add: to_super_def)
  moreover obtain r where "super_tensor X [PQobj ?V, PQobj S] = Some r"
    using super_tensor_pair_returns [of S X ?V] assms(2) by (auto simp: issuper_def)
  ultimately show ?thesis
    using composite_oper_super [OF assms, of X] by simp
qed

theorem composite_promotes_witness:
  "type oper2 = ''oper'' \<and> type chan_super = ''super'' \<and> superrep chan_super = Some ''super''
   \<and> (\<exists>V r. to_super ext0 oper2 = Inr (Some V)
          \<and> composite ext0 [PQobj oper2, PQobj chan_super] = Some r
          \<and> super_tensor ext0 [PQobj V, PQobj chan_super] = Some r)"
proof -
  have h: "type oper2 = ''oper''" "type chan_super = ''super''"
    "superrep chan_super = Some ''super''"
    by (simp_all add: oper2_def chan_super_def)
  from composite_promotes [OF h, of ext0] h show ?thesis
    by blast
qed

text \<open>
  C9 as stated fails for a super-operator tagged \<^verbatim>\<open>'choi'\<close>: \<^verbatim>\<open>composite\<close> converts it
  with \<^verbatim>\<open>to_super\<close> and succeeds, while \<^verbatim>\<open>super_tensor(to_super(U), S)\<close> raises
  \<^verbatim>\<open>TypeError\<close>.
\<close>

theorem composite_promotes_counterexample:
  "to_super ext0 oper2 = Inr (Some (mul0 (spre0 oper2) (spost0 (dag0 oper2))))
   \<and> super_tensor ext0 [PQobj (mul0 (spre0 oper2) (spost0 (dag0 oper2))), PQobj chan_choi]
       = Some (Inl (TypeError (''super_tensor on type=super is only implemented for ''
                       @ ''superrep=super.'')))
   \<and> map_option isl (composite ext0 [PQobj oper2, PQobj chan_choi]) = Some False"
proof -
  let ?V = "mul0 (spre0 oper2) (spost0 (dag0 oper2))"
  let ?S = "chan_super\<lparr>isherm := None\<rparr>"
  have V: "issuper ?V" "superrep ?V = Some ''super''"
    by (simp_all add: issuper_def mul0_def spre0_def spost0_def dag0_def super_dims_def
        oper2_def classify0_def)
  have S: "issuper ?S" "superrep ?S = Some ''super''" "issuper chan_choi"
    "superrep chan_choi \<noteq> Some ''super''"
    by (simp_all add: issuper_def chan_super_def chan_choi_def)
  have 1: "to_super ext0 oper2 = Inr (Some ?V)"
    by (simp add: to_super_def oper2_def ext0_def)
  have 2: "super_tensor ext0 [PQobj ?V, PQobj chan_choi]
       = Some (Inl (TypeError (''super_tensor on type=super is only implemented for ''
                       @ ''superrep=super.'')))"
    using V S by (subst super_tensor.simps) (simp add: Let_def)
  have c: "composite ext0 [PQobj oper2, PQobj chan_choi]
      = super_tensor ext0 [PQobj ?V, PQobj ?S]"
    using S(3) 1
    by (subst composite.simps)
       (simp add: Let_def isoperlike_def isoper_def to_super_chan_choi oper2_def)
  have ok: "issuper ?V \<longrightarrow> list_all (\<lambda>q. superrep q = superrep ?V) [?V, ?S]"
    using V S by simp
  from tensor_qlist_result [OF ok, of ext0]
  obtain out where "tensor_qlist ext0 [PQobj ?V, PQobj ?S] = Inr (tidy_result ext0 out)"
    by auto
  then have "shuffle_tensor_unshuffle ext0 [PQobj ?V, PQobj ?S] = Inr (tidy_result ext0 out)"
    by (simp add: shuffle_tensor_unshuffle_def tensor_def ext0_def)
  then have "isl (the (super_tensor ext0 [PQobj ?V, PQobj ?S])) = False
      \<and> super_tensor ext0 [PQobj ?V, PQobj ?S] \<noteq> None"
    using V S by (subst (1 2) super_tensor.simps) (simp add: Let_def)
  then have 3: "map_option isl (composite ext0 [PQobj oper2, PQobj chan_choi]) = Some False"
    unfolding c by auto
  show ?thesis using 1 2 3 by simp
qed

end
